theory Spec2Isabelle
  imports Main
begin

section \<open>Python values\<close>

text \<open>
  The streams of \<^verbatim>\<open>tap_prefect/streams.py\<close> pass untyped Python values around: page
  tokens, replication cursors, request bodies and response bodies. They are modelled by
  one universe of values. A dictionary is an association list in insertion order, looked
  up with \<open>map_of\<close>. A page token of the events stream is a \<^verbatim>\<open>ParseResult\<close>, the named
  tuple of the six components of a parsed URL.
\<close>

record parse_result =
  scheme :: string
  netloc :: string
  path :: string
  params :: string
  query :: string
  fragment :: string

datatype pyval =
    PNone
  | PBool bool
  | PInt int
  | PStr string
  | PList "pyval list"
  | PDict "(string \<times> pyval) list"
  | PUrl parse_result

text \<open>
  Truth value testing, as \<^verbatim>\<open>if x\<close> and \<^verbatim>\<open>x or y\<close> do it: \<^verbatim>\<open>None\<close>, \<^verbatim>\<open>False\<close>, zero and
  empty containers are false; a named tuple of six fields is never empty, so a
  \<^verbatim>\<open>ParseResult\<close> is always true.
\<close>

fun truthy :: "pyval \<Rightarrow> bool" where
  "truthy PNone = False"
| "truthy (PBool b) = b"
| "truthy (PInt i) = (i \<noteq> 0)"
| "truthy (PStr s) = (s \<noteq> [])"
| "truthy (PList xs) = (xs \<noteq> [])"
| "truthy (PDict kvs) = (kvs \<noteq> [])"
| "truthy (PUrl u) = True"

definition py_or :: "pyval \<Rightarrow> pyval \<Rightarrow> pyval" where
  \<comment> \<open>\<^verbatim>\<open>a or b\<close>\<close>
  "py_or a b = (if truthy a then a else b)"

definition dict_get :: "(string \<times> pyval) list \<Rightarrow> string \<Rightarrow> pyval" where
  \<comment> \<open>\<^verbatim>\<open>d.get(k)\<close>: the value, or \<^verbatim>\<open>None\<close> when the key is missing\<close>
  "dict_get d k = (case map_of d k of None \<Rightarrow> PNone | Some v \<Rightarrow> v)"

datatype error =
    KeyError string
  | AttributeError string
  | Raised string

type_synonym "context" = "(string \<times> pyval) list"

section \<open>The stream object\<close>

text \<open>
  \<^verbatim>\<open>self\<close>: what the three stream classes read from the object they are methods of.
  The settings \<^verbatim>\<open>config\<close> are text. \<^verbatim>\<open>http_headers\<close> and \<^verbatim>\<open>PAGE_SIZE\<close> come from the base
  class \<^verbatim>\<open>prefectStream\<close> of \<^verbatim>\<open>tap_prefect/client.py\<close>, which is not among the sources.
  The methods the classes inherit from the framework are fields too, so that every
  statement holds whatever they compute:
  \<^item> \<^verbatim>\<open>get_starting_replication_key_value\<close> reads the bookmark of a context from the state
    store (\<^verbatim>\<open>None\<close> when there is none);
  \<^item> \<^verbatim>\<open>get_url\<close> is given the value of the stream's \<^verbatim>\<open>path\<close> property and the context,
    and returns the URL of the stream or raises;
  \<^item> \<^verbatim>\<open>build_prepared_request\<close> is given its keyword arguments \<^verbatim>\<open>method\<close>, \<^verbatim>\<open>url\<close>,
    \<^verbatim>\<open>params\<close>, \<^verbatim>\<open>headers\<close> and \<^verbatim>\<open>json\<close>, and returns the prepared request or raises (as it
    does on a URL it cannot prepare);
  \<^item> \<^verbatim>\<open>decorated_request\<close> is the transport: the outcome of the request dispatched after
    \<open>k\<close> earlier ones, a response or a failure.
\<close>

record response =
  json_body :: pyval

text \<open>The keyword arguments of \<^verbatim>\<open>build_prepared_request\<close>.\<close>

record request =
  req_method :: string
  req_url :: string
  req_params :: pyval
  req_headers :: "(string \<times> string) list"
  req_json :: pyval

text \<open>
  A prepared request, as the framework returns it: its method, its final URL, its headers
  and its body (the JSON document it carries, \<^verbatim>\<open>None\<close> when it has no body).
\<close>

record prepared_request =
  prepared_method :: string
  prepared_url :: string
  prepared_headers :: "(string \<times> string) list"
  prepared_json :: pyval

record stream =
  config :: "string \<rightharpoonup> string"
  http_headers :: "(string \<times> string) list"
  PAGE_SIZE :: int
  get_starting_replication_key_value :: "context option \<Rightarrow> pyval"
  get_url :: "string \<Rightarrow> context option \<Rightarrow> error + string"
  build_prepared_request :: "request \<Rightarrow> error + prepared_request"
  decorated_request :: "nat \<Rightarrow> prepared_request \<Rightarrow> context option \<Rightarrow> error + response"

definition config_get :: "stream \<Rightarrow> string \<Rightarrow> pyval" where
  \<comment> \<open>\<^verbatim>\<open>self.config.get(k)\<close>\<close>
  "config_get self k = (case config self k of None \<Rightarrow> PNone | Some s \<Rightarrow> PStr s)"

definition config_item :: "stream \<Rightarrow> string \<Rightarrow> error + string" where
  \<comment> \<open>\<^verbatim>\<open>self.config[k]\<close>: a missing key raises\<close>
  "config_item self k = (case config self k of None \<Rightarrow> Inl (KeyError k) | Some s \<Rightarrow> Inr s)"

definition workspace_path :: "stream \<Rightarrow> string \<Rightarrow> error + string" where
  \<comment> \<open>the f-string shared by the three \<^verbatim>\<open>path\<close> properties, up to the last segment\<close>
  "workspace_path self tail =
     (case config_item self ''account_id'' of
        Inl e \<Rightarrow> Inl e
      | Inr a \<Rightarrow>
          (case config_item self ''workspace_id'' of
             Inl e \<Rightarrow> Inl e
           | Inr w \<Rightarrow> Inr (''/accounts/'' @ a @ ''/workspaces/'' @ w @ tail)))"

section \<open>Flow runs\<close>

definition FlowRunStream_rest_method :: string where
  "FlowRunStream_rest_method = ''POST''"

definition FlowRunStream_path :: "stream \<Rightarrow> error + string" where
  "FlowRunStream_path self = workspace_path self ''/flow_runs/filter''"

definition FlowRunStream_prepare_request_payload ::
  "stream \<Rightarrow> context option \<Rightarrow> pyval \<Rightarrow> pyval" where
  "FlowRunStream_prepare_request_payload self context next_page_token =
     (let starting_date =
            py_or (get_starting_replication_key_value self context)
                  (config_get self ''start_date'')
      in PDict
           [(''sort'', PStr ''EXPECTED_START_TIME_ASC''),
            (''offset'', next_page_token),
            (''limit'', PInt (PAGE_SIZE self)),
            (''flow_runs'',
               PDict [(''expected_start_time'', PDict [(''after_'', starting_date)])])])"

definition get_child_context :: "context \<Rightarrow> context option \<Rightarrow> error + context" where
  \<comment> \<open>\<^verbatim>\<open>record["id"]\<close> raises when the record has no \<^verbatim>\<open>id\<close>\<close>
  "get_child_context record context =
     (case map_of record ''id'' of
        None \<Rightarrow> Inl (KeyError ''id'')
      | Some v \<Rightarrow> Inr [(''flow_id'', v)])"

section \<open>Task runs\<close>

definition TaskRunSubStream_partitions :: "stream \<Rightarrow> context list" where
  "TaskRunSubStream_partitions self = []"

definition TaskRunSubStream_path :: "stream \<Rightarrow> error + string" where
  "TaskRunSubStream_path self = workspace_path self ''/task_runs/filter''"

definition TaskRunSubStream_prepare_request_payload ::
  "stream \<Rightarrow> context option \<Rightarrow> pyval \<Rightarrow> error + pyval" where
  \<comment> \<open>\<^verbatim>\<open>context.get\<close> on \<^verbatim>\<open>None\<close> raises\<close>
  "TaskRunSubStream_prepare_request_payload self context next_page_token =
     (case context of
        None \<Rightarrow> Inl (AttributeError ''get'')
      | Some c \<Rightarrow>
          (let flow_id = dict_get c ''flow_id''
           in Inr (PDict
                [(''sort'', PStr ''EXPECTED_START_TIME_ASC''),
                 (''offset'', next_page_token),
                 (''limit'', PInt (PAGE_SIZE self)),
                 (''flow_runs'', PDict [(''id'', PDict [(''any_'', PList [flow_id])])])])))"

text \<open>Reading a nested field of a payload: \<^verbatim>\<open>d[k1][k2]...\<close>, \<open>None\<close> where a key is missing.\<close>

fun lookup_path :: "pyval \<Rightarrow> string list \<Rightarrow> pyval option" where
  "lookup_path v [] = Some v"
| "lookup_path (PDict d) (k # ks) =
     (case map_of d k of None \<Rightarrow> None | Some v \<Rightarrow> lookup_path v ks)"
| "lookup_path _ (k # ks) = None"

section \<open>Events\<close>

text \<open>
  What the events stream uses from libraries that are not part of this repository, as
  parameters, so that every statement holds whatever they compute: \<^verbatim>\<open>ParseResult.geturl\<close>
  of \<^verbatim>\<open>urllib.parse\<close>, \<^verbatim>\<open>extract_jsonpath\<close> of the framework, and \<^verbatim>\<open>advance\<close> of the
  framework's paginator base class, which is given the \<^verbatim>\<open>get_next_url\<close> of the subclass
  and either raises or returns the paginator's next state.
\<close>

record paginator =
  current_value :: pyval
  finished :: bool
  page_count :: nat

record library =
  geturl :: "parse_result \<Rightarrow> string"
  extract_jsonpath :: "string \<Rightarrow> pyval \<Rightarrow> pyval list"
  advance :: "(response \<Rightarrow> error + pyval) \<Rightarrow> paginator \<Rightarrow> response \<Rightarrow> error + paginator"

definition MyHATEOASPaginator_get_next_url :: "response \<Rightarrow> error + pyval" where
  \<comment> \<open>\<^verbatim>\<open>response.json().get("next_page")\<close>: only a dictionary has \<^verbatim>\<open>get\<close>\<close>
  "MyHATEOASPaginator_get_next_url response =
     (case json_body response of
        PDict d \<Rightarrow> (let next_page = dict_get d ''next_page'' in Inr next_page)
      | _ \<Rightarrow> Inl (AttributeError ''get''))"


definition EventStream_rest_method :: string where
  "EventStream_rest_method = ''POST''"

definition EventStream_records_jsonpath :: string where
  "EventStream_records_jsonpath = ''$.events[*]''"

definition EventStream_path :: "stream \<Rightarrow> error + string" where
  "EventStream_path self = workspace_path self ''/events/filter''"

definition EventStream_get_url :: "stream \<Rightarrow> context option \<Rightarrow> error + string" where
  \<comment> \<open>\<^verbatim>\<open>self.get_url(context)\<close>: the framework reads the stream's \<^verbatim>\<open>path\<close>, which raises
      when a setting is missing\<close>
  "EventStream_get_url self context =
     (case EventStream_path self of Inl e \<Rightarrow> Inl e | Inr p \<Rightarrow> get_url self p context)"

definition EventStream_get_url_params :: "stream \<Rightarrow> context option \<Rightarrow> pyval \<Rightarrow> pyval" where
  "EventStream_get_url_params self context next_page_token = PNone"

definition EventStream_prepare_request_payload ::
  "stream \<Rightarrow> context option \<Rightarrow> pyval \<Rightarrow> pyval" where
  "EventStream_prepare_request_payload self context next_page_token =
     (let starting_date =
            py_or (get_starting_replication_key_value self context)
                  (config_get self ''start_date'');
          params =
            PDict
              [(''limit'', PInt 50),
               (''filter'',
                  PDict
                    [(''occurred'', PDict [(''since'', starting_date)]),
                     (''event'', PDict [(''exclude_name'', PList [PStr ''prefect.log.write''])]),
                     (''order'', PStr ''ASC'')])]
      in if truthy next_page_token then PNone else params)"

text \<open>
  The class body defines \<^verbatim>\<open>prepare_request\<close> twice. The first definition (lines 159 to
  204) is replaced by the second (lines 275 to 309) when the class is created, so the
  second is the method the stream has. Each definition computes the five keyword
  arguments and hands them to \<^verbatim>\<open>build_prepared_request\<close>; the arguments are a function of
  their own here, so that statements can speak about them. The first definition calls
  \<^verbatim>\<open>build_prepared_request\<close> twice with the same arguments, once for the log.
\<close>

definition EventStream_request_arguments_earlier ::
  "stream \<Rightarrow> context option \<Rightarrow> pyval \<Rightarrow> error + request" where
  "EventStream_request_arguments_earlier self context next_page_token =
     (let http_method = (if truthy next_page_token then ''POST'' else EventStream_rest_method)
      in case EventStream_get_url self context of
           Inl e \<Rightarrow> Inl e
         | Inr url \<Rightarrow>
             (let params = EventStream_get_url_params self context next_page_token;
                  request_data = EventStream_prepare_request_payload self context next_page_token;
                  headers = http_headers self
              in Inr \<lparr>req_method = http_method, req_url = url, req_params = params,
                      req_headers = headers, req_json = request_data\<rparr>))"

definition EventStream_prepare_request_earlier ::
  "stream \<Rightarrow> context option \<Rightarrow> pyval \<Rightarrow> error + prepared_request" where
  "EventStream_prepare_request_earlier self context next_page_token =
     (case EventStream_request_arguments_earlier self context next_page_token of
        Inl e \<Rightarrow> Inl e
      | Inr arguments \<Rightarrow>
          (case build_prepared_request self arguments of
             Inl e \<Rightarrow> Inl e
           | Inr prepped \<Rightarrow> build_prepared_request self arguments))"

definition EventStream_request_arguments ::
  "library \<Rightarrow> stream \<Rightarrow> context option \<Rightarrow> pyval \<Rightarrow> error + request" where
  \<comment> \<open>\<^verbatim>\<open>next_page_token.geturl()\<close> raises on a true token that is no \<^verbatim>\<open>ParseResult\<close>\<close>
  "EventStream_request_arguments lib self context next_page_token =
     (case (if truthy next_page_token then
              (case next_page_token of
                 PUrl u \<Rightarrow> Inr (''GET'', geturl lib u)
               | _ \<Rightarrow> Inl (AttributeError ''geturl''))
            else
              (case EventStream_get_url self context of
                 Inl e \<Rightarrow> Inl e
               | Inr u \<Rightarrow> Inr (EventStream_rest_method, u)))
      of
        Inl e \<Rightarrow> Inl e
      | Inr (http_method, url) \<Rightarrow>
          (let params = EventStream_get_url_params self context next_page_token;
               request_data = EventStream_prepare_request_payload self context next_page_token;
               headers = http_headers self
           in Inr \<lparr>req_method = http_method, req_url = url, req_params = params,
                   req_headers = headers, req_json = request_data\<rparr>))"

definition EventStream_prepare_request ::
  "library \<Rightarrow> stream \<Rightarrow> context option \<Rightarrow> pyval \<Rightarrow> error + prepared_request" where
  "EventStream_prepare_request lib self context next_page_token =
     (case EventStream_request_arguments lib self context next_page_token of
        Inl e \<Rightarrow> Inl e
      | Inr arguments \<Rightarrow> build_prepared_request self arguments)"

definition EventStream_parse_response :: "library \<Rightarrow> response \<Rightarrow> pyval list" where
  "EventStream_parse_response lib response =
     extract_jsonpath lib EventStream_records_jsonpath (json_body response)"

subsection \<open>The request loop\<close>

text \<open>
  The state of one run of \<^verbatim>\<open>request_records\<close>: the paginator, the request counter, the
  requests answered so far with their responses, in the order they were sent, and the
  records yielded so far, in the order they were yielded.
\<close>

record run =
  paginator :: paginator
  request_counter :: nat
  exchanged :: "(prepared_request \<times> response) list"
  yielded :: "pyval list"

text \<open>
  One pass through the body of the \<^verbatim>\<open>while\<close> loop. An exception leaves the loop with the
  state reached so far: \<^verbatim>\<open>prepare_request\<close> and the transport raise before anything is
  counted or yielded, \<^verbatim>\<open>advance\<close> raises after the page's records were yielded.
\<close>

definition page_step :: "library \<Rightarrow> stream \<Rightarrow> context option \<Rightarrow> run \<Rightarrow> error option \<times> run" where
  "page_step lib self context r =
     (let npt = current_value (paginator r)
      in case EventStream_prepare_request lib self context npt of
           Inl e \<Rightarrow> (Some e, r)
         | Inr prepared_request \<Rightarrow>
             (case decorated_request self (request_counter r) prepared_request context of
                Inl e \<Rightarrow> (Some e, r)
              | Inr resp \<Rightarrow>
                  (let r1 = r\<lparr>request_counter := request_counter r + 1,
                              exchanged := exchanged r @ [(prepared_request, resp)],
                              yielded := yielded r @ EventStream_parse_response lib resp\<rparr>
                   in case advance lib MyHATEOASPaginator_get_next_url (paginator r) resp of
                        Inl e \<Rightarrow> (Some e, r1)
                      | Inr p \<Rightarrow> (None, r1\<lparr>paginator := p\<rparr>))))"




text \<open>The state after exactly \<open>n\<close> passes through the loop body, that is, after \<open>n\<close> pages.\<close>

primrec pages_after ::
  "library \<Rightarrow> stream \<Rightarrow> context option \<Rightarrow> nat \<Rightarrow> run \<Rightarrow> error option \<times> run" where
  "pages_after lib self context 0 r = (None, r)"
| "pages_after lib self context (Suc n) r =
     (case page_step lib self context r of
        (Some e, r') \<Rightarrow> (Some e, r')
      | (None, r') \<Rightarrow> pages_after lib self context n r')"



section \<open>An example run\<close>

text \<open>
  A concrete library and stream, used to run the definitions on the scenario of two
  pages of events linked by \<^verbatim>\<open>next_page\<close>. The URL functions and the framework methods are
  small stand-ins; no statement about the streams depends on them.
\<close>

definition cut :: "char \<Rightarrow> string \<Rightarrow> string \<times> string" where
  \<comment> \<open>the text before and after the first occurrence of a character\<close>
  "cut c s = (takeWhile (\<lambda>x. x \<noteq> c) s, drop 1 (dropWhile (\<lambda>x. x \<noteq> c) s))"

definition example_urlparse :: "string \<Rightarrow> parse_result" where
  "example_urlparse s =
     (let (s1, frag) = cut CHR ''#'' s;
          (s2, qry) = cut CHR ''?'' s1;
          (sch, s3) = (if CHR '':'' \<in> set s2 then cut CHR '':'' s2 else ([], s2));
          (net, p) = (case s3 of
                        CHR ''/'' # CHR ''/'' # rest \<Rightarrow>
                          (takeWhile (\<lambda>x. x \<noteq> CHR ''/'') rest, dropWhile (\<lambda>x. x \<noteq> CHR ''/'') rest)
                      | _ \<Rightarrow> ([], s3))
      in \<lparr>scheme = sch, netloc = net, path = p, params = [], query = qry, fragment = frag\<rparr>)"

definition example_geturl :: "parse_result \<Rightarrow> string" where
  "example_geturl u =
     (if scheme u = [] then [] else scheme u @ '':'')
     @ (if netloc u = [] then [] else ''//'' @ netloc u)
     @ path u
     @ (if params u = [] then [] else '';'' @ params u)
     @ (if query u = [] then [] else ''?'' @ query u)
     @ (if fragment u = [] then [] else ''#'' @ fragment u)"

definition example_extract_jsonpath :: "string \<Rightarrow> pyval \<Rightarrow> pyval list" where
  "example_extract_jsonpath expression input =
     (if expression = ''$.events[*]'' then
        (case input of
           PDict d \<Rightarrow> (case map_of d ''events'' of Some (PList xs) \<Rightarrow> xs | _ \<Rightarrow> [])
         | _ \<Rightarrow> [])
      else [])"

definition link_advance ::
  "(string \<Rightarrow> parse_result) \<Rightarrow> (response \<Rightarrow> error + pyval) \<Rightarrow> paginator \<Rightarrow> response
     \<Rightarrow> error + paginator" where
  \<comment> \<open>Modelled from the spec: the link-style paginator of the framework, which is not part
      of this repository. ``The token is a resumption link extracted from the response
      body\<dots> Finished when no such link is found in a response.'' The link is parsed
      into the token; a link equal to the current token is refused as a loop.\<close>
  "link_advance urlparse get_next_url p response =
     (case get_next_url response of
        Inl e \<Rightarrow> Inl e
      | Inr next_url \<Rightarrow>
          (case (if truthy next_url then
                   (case next_url of
                      PStr s \<Rightarrow> Inr (PUrl (urlparse s))
                    | _ \<Rightarrow> Inl (Raised ''TypeError''))
                 else Inr PNone)
           of
             Inl e \<Rightarrow> Inl e
           | Inr new_value \<Rightarrow>
               if truthy new_value \<and> new_value = current_value p then
                 Inl (Raised ''RuntimeError'')
               else if \<not> truthy new_value then
                 Inr (p\<lparr>finished := True, page_count := page_count p + 1\<rparr>)
               else
                 Inr (p\<lparr>current_value := new_value, page_count := page_count p + 1\<rparr>)))"

definition example_library :: library where
  "example_library =
     \<lparr>geturl = example_geturl,
      extract_jsonpath = example_extract_jsonpath,
      advance = link_advance example_urlparse\<rparr>"

definition example_link :: parse_result where
  "example_link =
     \<lparr>scheme = ''https'', netloc = ''api'', path = ''/events'', params = [],
      query = ''cursor=abc'', fragment = []\<rparr>"

definition example_page_1 :: response where
  "example_page_1 =
     \<lparr>json_body =
        PDict [(''events'', PList [PDict [(''id'', PStr ''e1'')], PDict [(''id'', PStr ''e2'')]]),
               (''next_page'', PStr ''https://api/events?cursor=abc'')]\<rparr>"

definition example_page_2 :: response where
  "example_page_2 =
     \<lparr>json_body =
        PDict [(''events'', PList [PDict [(''id'', PStr ''e3'')]]), (''next_page'', PNone)]\<rparr>"

definition example_get_url :: "string \<Rightarrow> context option \<Rightarrow> error + string" where
  "example_get_url p c = Inr (''https://api'' @ p)"

definition example_build_prepared_request :: "request \<Rightarrow> error + prepared_request" where
  \<comment> \<open>refuses a URL without a scheme, as the HTTP library does; takes no query parameters\<close>
  "example_build_prepared_request arguments =
     (if scheme (example_urlparse (req_url arguments)) = [] then Inl (Raised ''MissingSchema'')
      else if req_params arguments \<noteq> PNone then Inl (Raised ''params'')
      else Inr \<lparr>prepared_method = req_method arguments,
                prepared_url = req_url arguments,
                prepared_headers = req_headers arguments,
                prepared_json = req_json arguments\<rparr>)"

definition example_transport ::
  "nat \<Rightarrow> prepared_request \<Rightarrow> context option \<Rightarrow> error + response" where
  \<comment> \<open>the second page is served only to a GET of the link itself, without a body\<close>
  "example_transport k rq c =
     (if k = 0 then Inr example_page_1
      else if prepared_method rq = ''GET''
             \<and> prepared_url rq = ''https://api/events?cursor=abc''
             \<and> prepared_json rq = PNone
        then Inr example_page_2
      else Inl (Raised ''HTTP 400''))"

definition example_stream :: stream where
  "example_stream =
     \<lparr>config = [''account_id'' \<mapsto> ''acc'', ''workspace_id'' \<mapsto> ''ws'',
                ''start_date'' \<mapsto> ''2024-01-01T00:00:00Z''],
      http_headers = [(''Authorization'', ''Bearer t'')],
      PAGE_SIZE = 200,
      get_starting_replication_key_value = (\<lambda>c. PNone),
      get_url = example_get_url,
      build_prepared_request = example_build_prepared_request,
      decorated_request = example_transport\<rparr>"

definition example_request_1 :: request where
  "example_request_1 =
     \<lparr>req_method = ''POST'',
      req_url = ''https://api/accounts/acc/workspaces/ws/events/filter'',
      req_params = PNone,
      req_headers = [(''Authorization'', ''Bearer t'')],
      req_json =
        PDict
          [(''limit'', PInt 50),
           (''filter'',
              PDict
                [(''occurred'', PDict [(''since'', PStr ''2024-01-01T00:00:00Z'')]),
                 (''event'', PDict [(''exclude_name'', PList [PStr ''prefect.log.write''])]),
                 (''order'', PStr ''ASC'')])]\<rparr>"

definition example_request_2 :: request where
  "example_request_2 =
     \<lparr>req_method = ''GET'',
      req_url = ''https://api/events?cursor=abc'',
      req_params = PNone,
      req_headers = [(''Authorization'', ''Bearer t'')],
      req_json = PNone\<rparr>"

definition example_prepared_1 :: prepared_request where
  "example_prepared_1 =
     \<lparr>prepared_method = req_method example_request_1,
      prepared_url = req_url example_request_1,
      prepared_headers = req_headers example_request_1,
      prepared_json = req_json example_request_1\<rparr>"

definition example_prepared_2 :: prepared_request where
  "example_prepared_2 =
     \<lparr>prepared_method = ''GET'',
      prepared_url = ''https://api/events?cursor=abc'',
      prepared_headers = [(''Authorization'', ''Bearer t'')],
      prepared_json = PNone\<rparr>"


definition relative_link :: parse_result where
  \<comment> \<open>the parse of the link \<^verbatim>\<open>/events?cursor=abc\<close>, which has no scheme\<close>
  "relative_link =
     \<lparr>scheme = [], netloc = [], path = ''/events'', params = [],
      query = ''cursor=abc'', fragment = []\<rparr>"

section \<open>The example, computed\<close>


lemma example_geturl_link: "example_geturl example_link = ''https://api/events?cursor=abc''"
  by (simp add: example_geturl_def example_link_def)

lemma example_events_url:
  "EventStream_get_url example_stream c
     = Inr ''https://api/accounts/acc/workspaces/ws/events/filter''"
  by (simp add: EventStream_get_url_def EventStream_path_def workspace_path_def
      config_item_def example_stream_def example_get_url_def)

lemma example_first_arguments:
  "EventStream_request_arguments example_library example_stream None PNone
     = Inr example_request_1"
  by (simp add: EventStream_request_arguments_def EventStream_get_url_def EventStream_path_def
      workspace_path_def config_item_def EventStream_rest_method_def example_get_url_def
      EventStream_get_url_params_def EventStream_prepare_request_payload_def
      example_request_1_def py_or_def config_get_def example_stream_def)

lemma example_second_arguments:
  "EventStream_request_arguments example_library example_stream None (PUrl example_link)
     = Inr example_request_2"
  by (simp add: EventStream_request_arguments_def example_geturl_def example_link_def
      EventStream_get_url_params_def EventStream_prepare_request_payload_def
      example_request_2_def example_library_def example_stream_def)

lemma example_build_first:
  "build_prepared_request example_stream example_request_1 = Inr example_prepared_1"
  by (simp add: example_stream_def example_build_prepared_request_def example_request_1_def
      example_prepared_1_def example_urlparse_def cut_def)

lemma example_build_second:
  "build_prepared_request example_stream example_request_2 = Inr example_prepared_2"
  by (simp add: example_stream_def example_build_prepared_request_def example_request_2_def
      example_prepared_2_def example_urlparse_def cut_def)

lemma example_first_request:
  "EventStream_prepare_request example_library example_stream None PNone
     = Inr example_prepared_1"
  by (simp add: EventStream_prepare_request_def example_first_arguments example_build_first)

lemma example_second_request:
  "EventStream_prepare_request example_library example_stream None (PUrl example_link)
     = Inr example_prepared_2"
  by (simp add: EventStream_prepare_request_def example_second_arguments example_build_second)

text \<open>A link without a scheme: the framework refuses it, and no request is built.\<close>

lemma example_relative_link_raises:
  "EventStream_prepare_request example_library example_stream None (PUrl relative_link)
     = Inl (Raised ''MissingSchema'')"
  by (simp add: EventStream_prepare_request_def EventStream_request_arguments_def
      EventStream_get_url_params_def EventStream_prepare_request_payload_def
      example_library_def example_geturl_def relative_link_def example_stream_def
      example_build_prepared_request_def example_urlparse_def cut_def)




section \<open>Task runs: partitions and parent context\<close>

text \<open>
  Claim C8. The partition set of the task-runs stream is the empty list, for every
  configuration and state of the stream object.
\<close>

theorem TaskRunSubStream_partitions_empty: "TaskRunSubStream_partitions self = []"
  by (simp add: TaskRunSubStream_partitions_def)

text \<open>
  Claim C5. A flow-run record with identifier \<open>N\<close> derives the child context
  \<open>{flow_id: N}\<close>; the task-runs payload built from that context is a dictionary whose
  \<open>flow_runs.id.any_\<close> is the one-element list \<open>[N]\<close>, for every page token; and the
  payload is the same whatever the state store returns as the replication cursor.
\<close>

theorem task_runs_scoped_to_parent:
  "map_of record ''id'' = Some N \<Longrightarrow>
     get_child_context record context = Inr [(''flow_id'', N)]
     \<and> (\<exists>payload.
          TaskRunSubStream_prepare_request_payload self (Some [(''flow_id'', N)]) tok
            = Inr payload
          \<and> lookup_path payload [''flow_runs'', ''id'', ''any_''] = Some (PList [N]))
     \<and> TaskRunSubStream_prepare_request_payload
           (self\<lparr>get_starting_replication_key_value := g\<rparr>) (Some [(''flow_id'', N)]) tok
         = TaskRunSubStream_prepare_request_payload self (Some [(''flow_id'', N)]) tok"
  by (simp add: get_child_context_def TaskRunSubStream_prepare_request_payload_def
      dict_get_def)

text \<open>The parent records with ids 1 and 2 of the end-to-end scenario.\<close>

theorem task_runs_scoped_to_parent_witness:
  "map_of [(''id'', PInt 1), (''name'', PStr ''a'')] ''id'' = Some (PInt 1)
   \<and> get_child_context [(''id'', PInt 1), (''name'', PStr ''a'')] None
       = Inr [(''flow_id'', PInt 1)]
   \<and> (\<exists>payload.
        TaskRunSubStream_prepare_request_payload example_stream
          (Some [(''flow_id'', PInt 1)]) PNone = Inr payload
        \<and> lookup_path payload [''flow_runs'', ''id'', ''any_''] = Some (PList [PInt 1]))
   \<and> map_of [(''id'', PInt 2)] ''id'' = Some (PInt 2)
   \<and> get_child_context [(''id'', PInt 2)] None = Inr [(''flow_id'', PInt 2)]
   \<and> (\<exists>payload.
        TaskRunSubStream_prepare_request_payload example_stream
          (Some [(''flow_id'', PInt 2)]) PNone = Inr payload
        \<and> lookup_path payload [''flow_runs'', ''id'', ''any_''] = Some (PList [PInt 2]))"
proof -
  have h1: "map_of [(''id'', PInt 1), (''name'', PStr ''a'')] ''id'' = Some (PInt 1)"
    by simp
  have h2: "map_of [(''id'', PInt 2)] ''id'' = Some (PInt 2)"
    by simp
  from task_runs_scoped_to_parent [OF h1, of None example_stream PNone]
       task_runs_scoped_to_parent [OF h2, of None example_stream PNone] h1 h2
  show ?thesis by blast
qed

section \<open>The link-style paginator\<close>

text \<open>
  Claim C3. For a response whose JSON body is an object, \<^verbatim>\<open>get_next_url\<close> returns the
  value of the field \<^verbatim>\<open>next_page\<close> as it stands, and returns \<^verbatim>\<open>None\<close>, without raising,
  when the field is missing or null.
\<close>

theorem get_next_url_is_next_page:
  "MyHATEOASPaginator_get_next_url \<lparr>json_body = PDict d\<rparr> = Inr (dict_get d ''next_page'')
   \<and> (\<forall>v. map_of d ''next_page'' = Some v \<longrightarrow>
          MyHATEOASPaginator_get_next_url \<lparr>json_body = PDict d\<rparr> = Inr v)
   \<and> (map_of d ''next_page'' = None \<longrightarrow>
          MyHATEOASPaginator_get_next_url \<lparr>json_body = PDict d\<rparr> = Inr PNone)"
  by (simp add: MyHATEOASPaginator_get_next_url_def dict_get_def)

theorem get_next_url_is_next_page_witness:
  "MyHATEOASPaginator_get_next_url
      \<lparr>json_body = PDict [(''next_page'', PStr ''https://x/y?offset=5'')]\<rparr>
     = Inr (PStr ''https://x/y?offset=5'')
   \<and> MyHATEOASPaginator_get_next_url \<lparr>json_body = PDict [(''next_page'', PNone)]\<rparr>
     = Inr PNone
   \<and> MyHATEOASPaginator_get_next_url \<lparr>json_body = PDict [(''events'', PList [])]\<rparr>
     = Inr PNone"
  using get_next_url_is_next_page [of "[(''next_page'', PStr ''https://x/y?offset=5'')]"]
        get_next_url_is_next_page [of "[(''next_page'', PNone)]"]
        get_next_url_is_next_page [of "[(''events'', PList [])]"]
  by (simp add: dict_get_def)

text \<open>
  On the link-style paginator of the example library, a missing or null link ends the
  pagination: the paginator is finished after the page, and nothing is raised.
\<close>

lemma link_advance_no_link_finishes:
  "MyHATEOASPaginator_get_next_url response = Inr PNone \<Longrightarrow>
     link_advance urlparse MyHATEOASPaginator_get_next_url p response
       = Inr (p\<lparr>finished := True, page_count := page_count p + 1\<rparr>)"
  by (simp add: link_advance_def)

section \<open>Preparing the request of the events stream\<close>

text \<open>
  Claim C1. With a parsed next-page URL as the token, the request of the events stream
  is the one \<^verbatim>\<open>build_prepared_request\<close> makes of the method GET, the token's URL (not the
  stream's computed path), no query parameters and no JSON body; when the framework
  refuses these, its error is raised and no request is built. With no token, the
  request is made of the stream's \<^verbatim>\<open>rest_method\<close> and of the URL \<^verbatim>\<open>get_url\<close> computes from
  the stream's path, and an error of \<^verbatim>\<open>get_url\<close> or of the path is raised as it is.
\<close>

theorem prepare_request_follows_link:
  "EventStream_prepare_request lib self context (PUrl u)
     = build_prepared_request self
         \<lparr>req_method = ''GET'', req_url = geturl lib u, req_params = PNone,
          req_headers = http_headers self, req_json = PNone\<rparr>
   \<and> (\<forall>p. EventStream_get_url self context = Inr p \<longrightarrow>
          EventStream_prepare_request lib self context PNone
            = build_prepared_request self
                \<lparr>req_method = EventStream_rest_method, req_url = p, req_params = PNone,
                 req_headers = http_headers self,
                 req_json = EventStream_prepare_request_payload self context PNone\<rparr>)
   \<and> (\<forall>e. EventStream_get_url self context = Inl e \<longrightarrow>
          EventStream_prepare_request lib self context PNone = Inl e)"
  by (simp add: EventStream_prepare_request_def EventStream_request_arguments_def
      EventStream_get_url_params_def EventStream_prepare_request_payload_def)

theorem prepare_request_follows_link_witness:
  "EventStream_prepare_request example_library example_stream None (PUrl example_link)
     = Inr example_prepared_2
   \<and> build_prepared_request example_stream
         \<lparr>req_method = ''GET'', req_url = geturl example_library example_link,
          req_params = PNone, req_headers = http_headers example_stream, req_json = PNone\<rparr>
       = Inr example_prepared_2
   \<and> geturl example_library example_link = ''https://api/events?cursor=abc''
   \<and> prepared_method example_prepared_2 = ''GET''
   \<and> prepared_url example_prepared_2 = ''https://api/events?cursor=abc''
   \<and> prepared_json example_prepared_2 = PNone
   \<and> EventStream_get_url example_stream None
       = Inr ''https://api/accounts/acc/workspaces/ws/events/filter''
   \<and> EventStream_prepare_request example_library example_stream None PNone
       = Inr example_prepared_1
   \<and> build_prepared_request example_stream
         \<lparr>req_method = EventStream_rest_method,
          req_url = ''https://api/accounts/acc/workspaces/ws/events/filter'',
          req_params = PNone, req_headers = http_headers example_stream,
          req_json = EventStream_prepare_request_payload example_stream None PNone\<rparr>
       = Inr example_prepared_1
   \<and> prepared_method example_prepared_1 = ''POST''
   \<and> prepared_url example_prepared_1
       = ''https://api/accounts/acc/workspaces/ws/events/filter''"
proof -
  note link = prepare_request_follows_link
      [of example_library example_stream None example_link]
  have url: "EventStream_get_url example_stream None
               = Inr ''https://api/accounts/acc/workspaces/ws/events/filter''"
    by (rule example_events_url)
  from link have
    "EventStream_prepare_request example_library example_stream None (PUrl example_link)
       = build_prepared_request example_stream
           \<lparr>req_method = ''GET'', req_url = geturl example_library example_link,
            req_params = PNone, req_headers = http_headers example_stream,
            req_json = PNone\<rparr>"
    by blast
  moreover from link url have
    "EventStream_prepare_request example_library example_stream None PNone
       = build_prepared_request example_stream
           \<lparr>req_method = EventStream_rest_method,
            req_url = ''https://api/accounts/acc/workspaces/ws/events/filter'',
            req_params = PNone, req_headers = http_headers example_stream,
            req_json = EventStream_prepare_request_payload example_stream None PNone\<rparr>"
    by blast
  moreover have "geturl example_library example_link = ''https://api/events?cursor=abc''"
    by (simp add: example_library_def example_geturl_link)
  moreover have "prepared_method example_prepared_2 = ''GET''"
    "prepared_url example_prepared_2 = ''https://api/events?cursor=abc''"
    "prepared_json example_prepared_2 = PNone"
    "prepared_method example_prepared_1 = ''POST''"
    "prepared_url example_prepared_1 = ''https://api/accounts/acc/workspaces/ws/events/filter''"
    by (simp_all add: example_prepared_1_def example_prepared_2_def example_request_1_def)
  ultimately show ?thesis
    using example_first_request example_second_request url by simp
qed

text \<open>
  Claim C10. The two definitions of \<^verbatim>\<open>prepare_request\<close> in the class body agree on every
  token that tests false, in particular on the absent token of the first page: they
  compute the same keyword arguments and so build the same request, or raise the same
  error; the arguments are the stream's \<^verbatim>\<open>rest_method\<close>, its computed URL, no query
  parameters, the stream's headers and the payload of the events stream as JSON body.
  So they differ only on a token that tests true.
\<close>

theorem prepare_request_definitions_agree:
  "\<not> truthy tok \<Longrightarrow>
     EventStream_prepare_request lib self context tok
       = EventStream_prepare_request_earlier self context tok
     \<and> EventStream_request_arguments lib self context tok
       = EventStream_request_arguments_earlier self context tok
     \<and> (\<forall>r. EventStream_request_arguments_earlier self context tok = Inr r \<longrightarrow>
            req_method r = EventStream_rest_method
            \<and> EventStream_get_url self context = Inr (req_url r)
            \<and> req_params r = PNone
            \<and> req_headers r = http_headers self
            \<and> req_json r = EventStream_prepare_request_payload self context tok)"
  by (auto simp add: EventStream_prepare_request_def EventStream_prepare_request_earlier_def
      EventStream_request_arguments_def EventStream_request_arguments_earlier_def
      EventStream_get_url_params_def split: sum.splits)

theorem prepare_request_definitions_agree_witness:
  "\<not> truthy PNone
   \<and> EventStream_prepare_request example_library example_stream None PNone
       = Inr example_prepared_1
   \<and> EventStream_prepare_request_earlier example_stream None PNone = Inr example_prepared_1
   \<and> EventStream_request_arguments example_library example_stream None PNone
       = Inr example_request_1
   \<and> EventStream_request_arguments_earlier example_stream None PNone = Inr example_request_1"
  using prepare_request_definitions_agree [of PNone example_library example_stream None]
  by (simp add: example_first_request example_first_arguments)

text \<open>On a token the two definitions do differ: the earlier one posts to the stream's path.\<close>

lemma prepare_request_definitions_differ:
  "EventStream_request_arguments example_library example_stream None (PUrl example_link)
     \<noteq> EventStream_request_arguments_earlier example_stream None (PUrl example_link)"
  by (simp add: example_second_arguments EventStream_request_arguments_earlier_def
      example_events_url example_request_2_def)

section \<open>Query parameters of the events stream\<close>

text \<open>
  Claim C9, as stated, fails: when the token is the parsed link
  \<^verbatim>\<open>https://api/events?cursor=abc\<close>, whose query string holds the pair \<open>cursor = abc\<close>,
  the query parameters of the request are \<^verbatim>\<open>None\<close>, not that pair. The body of
  \<^verbatim>\<open>get_url_params\<close> that parsed the query string is commented out.
\<close>

theorem events_url_params_counterexample:
  "query example_link = ''cursor=abc''
   \<and> EventStream_get_url_params example_stream None (PUrl example_link) = PNone
   \<and> EventStream_get_url_params example_stream None (PUrl example_link)
       \<noteq> PDict [(''cursor'', PStr ''abc'')]
   \<and> EventStream_request_arguments example_library example_stream None (PUrl example_link)
       = Inr example_request_2
   \<and> req_params example_request_2 = PNone
   \<and> req_params example_request_2 \<noteq> PDict [(''cursor'', PStr ''abc'')]"
proof -
  have "query example_link = ''cursor=abc''"
    by (simp add: example_link_def)
  moreover have "EventStream_get_url_params example_stream None (PUrl example_link) = PNone"
    by (simp add: EventStream_get_url_params_def)
  moreover have "req_params example_request_2 = PNone"
    by (simp add: example_request_2_def)
  ultimately show ?thesis
    using example_second_arguments by simp
qed

text \<open>
  Claim C9, amended. The query parameters of every request of the events stream are
  absent, for a first-page request and for a request that follows a link alike; the
  query string of a link reaches the request only inside the URL. Every request the
  stream builds is the one the framework prepares from such arguments.
\<close>

theorem events_url_params_absent:
  "EventStream_get_url_params self context tok = PNone
   \<and> (\<forall>r. EventStream_request_arguments lib self context tok = Inr r \<longrightarrow>
          req_params r = PNone)
   \<and> (\<forall>u r. EventStream_request_arguments lib self context (PUrl u) = Inr r \<longrightarrow>
          req_url r = geturl lib u)
   \<and> (\<forall>pr. EventStream_prepare_request lib self context tok = Inr pr \<longrightarrow>
          (\<exists>r. EventStream_request_arguments lib self context tok = Inr r
               \<and> req_params r = PNone
               \<and> build_prepared_request self r = Inr pr))"
  by (auto simp add: EventStream_prepare_request_def EventStream_request_arguments_def
      EventStream_get_url_params_def split: sum.splits if_splits pyval.splits)

theorem events_url_params_absent_witness:
  "EventStream_request_arguments example_library example_stream None PNone
     = Inr example_request_1
   \<and> req_params example_request_1 = PNone
   \<and> EventStream_request_arguments example_library example_stream None (PUrl example_link)
     = Inr example_request_2
   \<and> req_params example_request_2 = PNone
   \<and> req_url example_request_2 = geturl example_library example_link
   \<and> EventStream_prepare_request example_library example_stream None (PUrl example_link)
     = Inr example_prepared_2
   \<and> build_prepared_request example_stream example_request_2 = Inr example_prepared_2"
  using events_url_params_absent [of example_stream None PNone example_library]
        events_url_params_absent [of example_stream None "PUrl example_link" example_library]
        example_first_arguments example_second_arguments example_second_request
        example_build_second
  by simp

section \<open>The request loop of the events stream\<close>

subsection \<open>What one page does to the run\<close>

lemma page_step_counts:
  "page_step lib self ctx r = (None, r') \<Longrightarrow>
     request_counter r' = request_counter r + 1
     \<and> length (exchanged r') = length (exchanged r) + 1"
  by (auto simp: page_step_def Let_def split: sum.splits)

lemma pages_after_counts:
  "pages_after lib self ctx n r = (None, r') \<Longrightarrow>
     request_counter r' = request_counter r + n
     \<and> length (exchanged r') = length (exchanged r) + n"
proof (induction n arbitrary: r)
  case 0
  then show ?case by simp
next
  case (Suc n)
  from Suc.prems obtain r1 where s: "page_step lib self ctx r = (None, r1)"
    and rest: "pages_after lib self ctx n r1 = (None, r')"
    by (auto split: prod.splits option.splits)
  from page_step_counts[OF s] Suc.IH[OF rest] show ?case by simp
qed



subsection \<open>The loop keeps the pages in order\<close>



subsection \<open>The loop ends when the paginator is finished\<close>







section \<open>Payloads and the replication cursor\<close>

text \<open>
  Both payload builders compute the lower bound as
  \<^verbatim>\<open>self.get_starting_replication_key_value(context) or self.config.get("start_date")\<close>.
  The state store returns \<^verbatim>\<open>None\<close> when the context has no bookmark, and otherwise the
  bookmarked value of the replication key, a timestamp, which tests true. For these
  cursors \<^verbatim>\<open>or\<close> takes the cursor when there is one and the start date when there is none.
\<close>

text \<open>
  Claim C4. For every context and token, with a replication cursor that is absent or a
  true value: when a cursor \<open>C\<close> exists, the flow-runs payload filters on
  \<open>expected_start_time.after_ = C\<close>; when no cursor exists, it filters on the configured
  start date; the payload sorts by ascending expected start time, has the given page
  token as offset and the page size as limit.
\<close>

theorem flow_runs_payload_filter:
  assumes "c = get_starting_replication_key_value self context"
    and "p = FlowRunStream_prepare_request_payload self context tok"
    and "c = PNone \<or> truthy c"
  shows "(c \<noteq> PNone \<longrightarrow>
            lookup_path p [''flow_runs'', ''expected_start_time'', ''after_''] = Some c)
         \<and> (c = PNone \<longrightarrow>
            lookup_path p [''flow_runs'', ''expected_start_time'', ''after_'']
              = Some (config_get self ''start_date''))
         \<and> lookup_path p [''sort''] = Some (PStr ''EXPECTED_START_TIME_ASC'')
         \<and> lookup_path p [''offset''] = Some tok
         \<and> lookup_path p [''limit''] = Some (PInt (PAGE_SIZE self))"
  using assms
  by (auto simp add: FlowRunStream_prepare_request_payload_def py_or_def)

theorem flow_runs_payload_filter_witness:
  "truthy (PStr ''2024-05-01T00:00:00Z'')
   \<and> lookup_path
         (FlowRunStream_prepare_request_payload
            (example_stream\<lparr>get_starting_replication_key_value :=
                              (\<lambda>c. PStr ''2024-05-01T00:00:00Z'')\<rparr>) None (PInt 200))
         [''flow_runs'', ''expected_start_time'', ''after_'']
       = Some (PStr ''2024-05-01T00:00:00Z'')
   \<and> get_starting_replication_key_value example_stream None = PNone
   \<and> config_get example_stream ''start_date'' = PStr ''2024-01-01T00:00:00Z''
   \<and> lookup_path (FlowRunStream_prepare_request_payload example_stream None PNone)
         [''flow_runs'', ''expected_start_time'', ''after_'']
       = Some (PStr ''2024-01-01T00:00:00Z'')
   \<and> lookup_path (FlowRunStream_prepare_request_payload example_stream None PNone)
         [''sort''] = Some (PStr ''EXPECTED_START_TIME_ASC'')
   \<and> lookup_path (FlowRunStream_prepare_request_payload example_stream None PNone)
         [''offset''] = Some PNone
   \<and> lookup_path (FlowRunStream_prepare_request_payload example_stream None PNone)
         [''limit''] = Some (PInt 200)"
proof -
  have t: "PStr ''2024-05-01T00:00:00Z'' = PNone \<or> truthy (PStr ''2024-05-01T00:00:00Z'')"
    by simp
  have n: "PNone = PNone \<or> truthy PNone"
    by simp
  have c1: "PStr ''2024-05-01T00:00:00Z''
      = get_starting_replication_key_value
          (example_stream\<lparr>get_starting_replication_key_value :=
                            (\<lambda>c. PStr ''2024-05-01T00:00:00Z'')\<rparr>) None"
    by simp
  have c2: "PNone = get_starting_replication_key_value example_stream None"
    by (simp add: example_stream_def)
  have d: "config_get example_stream ''start_date'' = PStr ''2024-01-01T00:00:00Z''"
    by (simp add: config_get_def example_stream_def)
  have s: "PAGE_SIZE example_stream = 200"
    by (simp add: example_stream_def)
  from flow_runs_payload_filter [OF c1 refl t, of "PInt 200"]
       flow_runs_payload_filter [OF c2 refl n, of PNone] c2 d s
  show ?thesis by simp
qed

text \<open>
  Claim C2. The events payload is \<^verbatim>\<open>None\<close> whenever the page token tests true, whatever
  the context and the cursor. With the token absent, and a replication cursor that is
  absent or a true value, it is a dictionary whose filter has \<open>occurred.since\<close> equal to
  the replication cursor of the context when one exists, and to the configured start
  date when none exists, and whose event filter excludes the name \<^verbatim>\<open>prefect.log.write\<close>.
\<close>

theorem events_payload_token_or_filter:
  assumes "c = get_starting_replication_key_value self context"
    and "p = EventStream_prepare_request_payload self context PNone"
    and "c = PNone \<or> truthy c"
  shows "(truthy tok \<longrightarrow> EventStream_prepare_request_payload self context tok = PNone)
         \<and> (c \<noteq> PNone \<longrightarrow> lookup_path p [''filter'', ''occurred'', ''since''] = Some c)
         \<and> (c = PNone \<longrightarrow>
               lookup_path p [''filter'', ''occurred'', ''since'']
                 = Some (config_get self ''start_date''))
         \<and> lookup_path p [''filter'', ''event'', ''exclude_name'']
               = Some (PList [PStr ''prefect.log.write''])"
  using assms
  by (auto simp add: EventStream_prepare_request_payload_def py_or_def)

theorem events_payload_token_or_filter_witness:
  "truthy (PUrl example_link)
   \<and> EventStream_prepare_request_payload
         (example_stream\<lparr>get_starting_replication_key_value :=
                           (\<lambda>c. PStr ''2024-05-01T00:00:00Z'')\<rparr>) None (PUrl example_link)
       = PNone
   \<and> truthy (PStr ''2024-05-01T00:00:00Z'')
   \<and> lookup_path
         (EventStream_prepare_request_payload
            (example_stream\<lparr>get_starting_replication_key_value :=
                              (\<lambda>c. PStr ''2024-05-01T00:00:00Z'')\<rparr>) None PNone)
         [''filter'', ''occurred'', ''since'']
       = Some (PStr ''2024-05-01T00:00:00Z'')
   \<and> get_starting_replication_key_value example_stream None = PNone
   \<and> config_get example_stream ''start_date'' = PStr ''2024-01-01T00:00:00Z''
   \<and> lookup_path (EventStream_prepare_request_payload example_stream None PNone)
         [''filter'', ''occurred'', ''since'']
       = Some (PStr ''2024-01-01T00:00:00Z'')
   \<and> lookup_path (EventStream_prepare_request_payload example_stream None PNone)
         [''filter'', ''event'', ''exclude_name'']
       = Some (PList [PStr ''prefect.log.write''])"
proof -
  have t: "PStr ''2024-05-01T00:00:00Z'' = PNone \<or> truthy (PStr ''2024-05-01T00:00:00Z'')"
    by simp
  have n: "PNone = PNone \<or> truthy PNone"
    by simp
  have c1: "PStr ''2024-05-01T00:00:00Z''
      = get_starting_replication_key_value
          (example_stream\<lparr>get_starting_replication_key_value :=
                            (\<lambda>c. PStr ''2024-05-01T00:00:00Z'')\<rparr>) None"
    by simp
  have c2: "PNone = get_starting_replication_key_value example_stream None"
    by (simp add: example_stream_def)
  have d: "config_get example_stream ''start_date'' = PStr ''2024-01-01T00:00:00Z''"
    by (simp add: config_get_def example_stream_def)
  from events_payload_token_or_filter [OF c1 refl t, of "PUrl example_link"]
       events_payload_token_or_filter [OF c2 refl n, of PNone] c2 d
  show ?thesis by simp
qed

end
